theory Spec2Isabelle
  imports Main
begin

section \<open>The bootstrap script src/app.js as a state transformer\<close>

text \<open>
  The repository's one source file is a linear script that runs once at process start.
  Every statement of it is a call into a library (mongoose, redis, express and its
  middleware), so the embedding records each call, with the arguments the script passes,
  as an effect appended to a trace, and keeps the three continuations the script hands to
  the libraries (the mongoose callback, the rejection handler of the redis promise, the
  listen callback) as functions on the state, run when the event loop reports the outcome
  of the operation they belong to.
\<close>

subsection \<open>The configuration object read by the script\<close>

text \<open>
  The script reads \<^verbatim>\<open>config.connections.mongo\<close>, \<^verbatim>\<open>config.connections.redis\<close>,
  \<^verbatim>\<open>config.connections.http.port\<close>, \<^verbatim>\<open>config.secret\<close> and
  \<^verbatim>\<open>config.staticAssets.path\<close>. The records follow that nesting. The object
  comes from \<^verbatim>\<open>require('./config.js')\<close>, a module that is not among the sources, so
  it is a parameter of the script.
\<close>

record http_config =
  port :: string

record connections_config =
  mongo :: string
  redis :: string
  http :: http_config

record static_config =
  path :: string

record config =
  connections :: connections_config
  secret :: string
  staticAssets :: static_config

subsection \<open>Values handed to the libraries\<close>

text \<open>
  An object literal is an association list of its properties in source order, so that a
  property the literal does not mention is absent from it. A redis client is referred to
  by its handle (the index at which it was created), which is what makes two uses of the
  same client object recognisable as such.
\<close>

datatype jsval =
    JBool bool
  | JStr string
  | JClient nat
  | JRedisStore jsval
  | JObj "(string \<times> jsval) list"

fun get_prop :: "jsval \<Rightarrow> string \<Rightarrow> jsval option" where
  "get_prop (JObj kvs) k = map_of kvs k"
| "get_prop (JBool b) k = None"
| "get_prop (JStr v) k = None"
| "get_prop (JClient h) k = None"
| "get_prop (JRedisStore v) k = None"

type_synonym js_error = string

datatype middleware =
    Static string
  | Compression
  | UrlEncoded jsval
  | Session jsval
  | Favicon string
  | CookieParser

datatype effect =
    MongooseConnect string
  | RedisCreateClient nat jsval
  | RedisConnect nat
  | Express
  | AppUse "string option" middleware
  | AppEngine string jsval
  | AppSet string string
  | Router
  | AppListen string
  | ConsoleLog string
  | ConsoleError js_error
  | Uncaught js_error

subsection \<open>Process state\<close>

text \<open>
  A process is running until an exception escapes a callback; nothing in the script
  installs a handler for uncaught exceptions, so that ends the process. The continuations
  registered with a library and not yet run are \<open>pending\<close>.
\<close>

datatype status = Running | Crashed js_error

datatype callback = MongooseCb | RedisCatch | ListenCb

record state =
  config :: config
  clients :: "jsval list"
  trace :: "effect list"
  pending :: "callback list"
  status :: status

text \<open>
  What the script needs from the Node runtime: \<^verbatim>\<open>path.resolve\<close> and
  \<^verbatim>\<open>__dirname\<close>. Both are parameters of the model.
\<close>

record runtime =
  path_resolve :: "string \<Rightarrow> string"
  dirname :: string

definition init :: "config \<Rightarrow> state" where
  "init c = \<lparr>config = c, clients = [], trace = [], pending = [], status = Running\<rparr>"

definition emit :: "effect \<Rightarrow> state \<Rightarrow> state" where
  "emit e s = s\<lparr>trace := trace s @ [e]\<rparr>"

definition register :: "callback \<Rightarrow> state \<Rightarrow> state" where
  "register cb s = s\<lparr>pending := pending s @ [cb]\<rparr>"

definition console_log :: "string \<Rightarrow> state \<Rightarrow> state" where
  "console_log m s = emit (ConsoleLog m) s"

definition console_error :: "js_error \<Rightarrow> state \<Rightarrow> state" where
  "console_error e s = emit (ConsoleError e) s"

definition throw :: "js_error \<Rightarrow> state \<Rightarrow> state" where
  "throw e s = (emit (Uncaught e) s)\<lparr>status := Crashed e\<rparr>"

text \<open>
  Node's convention for a process ended by an uncaught exception is exit code 1; a
  running process has no exit code.
\<close>

fun exit_code :: "status \<Rightarrow> nat option" where
  "exit_code Running = None"
| "exit_code (Crashed e) = Some 1"

subsection \<open>The statements of the script, in source order\<close>

text \<open>Lines 39-44: \<^verbatim>\<open>mongoose.connect(config.connections.mongo, (err) => ...)\<close>.\<close>

definition mongoose_connect :: "state \<Rightarrow> state" where
  "mongoose_connect s =
     register MongooseCb (emit (MongooseConnect (mongo (connections (config s)))) s)"

definition mongoose_cb :: "js_error option \<Rightarrow> state \<Rightarrow> state" where
  "mongoose_cb err s =
     (case err of
        Some e \<Rightarrow> throw e (console_log ''Could not connect to database'' s)
      | None \<Rightarrow> s)"

text \<open>
  Lines 50-53: \<^verbatim>\<open>redis.createClient({legacyMode: true, url: config.connections.redis})\<close>.
  The result is the handle bound to \<^verbatim>\<open>redisClient\<close>.
\<close>

definition redis_createClient :: "state \<Rightarrow> nat \<times> state" where
  "redis_createClient s =
     (let opts = JObj [(''legacyMode'', JBool True),
                       (''url'', JStr (redis (connections (config s))))];
          h = length (clients s)
      in (h, emit (RedisCreateClient h opts) (s\<lparr>clients := clients s @ [opts]\<rparr>)))"

text \<open>Line 54: \<^verbatim>\<open>redisClient.connect().catch(console.error)\<close>.\<close>

definition redis_connect :: "nat \<Rightarrow> state \<Rightarrow> state" where
  "redis_connect h s = register RedisCatch (emit (RedisConnect h) s)"

definition redis_catch :: "js_error \<Rightarrow> state \<Rightarrow> state" where
  "redis_catch e s = console_error e s"

text \<open>Line 59: \<^verbatim>\<open>const app = express()\<close>.\<close>

definition express :: "state \<Rightarrow> state" where
  "express s = emit Express s"

text \<open>Line 71.\<close>

definition use_static :: "runtime \<Rightarrow> state \<Rightarrow> state" where
  "use_static rt s =
     emit (AppUse (Some ''/assets'')
             (Static (path_resolve rt (path (staticAssets (config s)))))) s"

text \<open>Lines 73-76.\<close>

definition use_compression :: "state \<Rightarrow> state" where
  "use_compression s = emit (AppUse None Compression) s"

definition use_urlencoded :: "state \<Rightarrow> state" where
  "use_urlencoded s = emit (AppUse None (UrlEncoded (JObj [(''extended'', JBool True)]))) s"

text \<open>Lines 82-93: the options object given to \<^verbatim>\<open>session\<close>.\<close>

definition session_options :: "config \<Rightarrow> nat \<Rightarrow> jsval" where
  "session_options c redisClient =
     JObj [(''key'', JStr ''sessionid''),
           (''store'', JRedisStore (JObj [(''client'', JClient redisClient)])),
           (''secret'', JStr (secret c)),
           (''resave'', JBool True),
           (''saveUninitialized'', JBool True),
           (''cookie'', JObj [(''httpOnly'', JBool True)])]"

definition use_session :: "nat \<Rightarrow> state \<Rightarrow> state" where
  "use_session redisClient s =
     emit (AppUse None (Session (session_options (config s) redisClient))) s"

text \<open>Lines 95-97.\<close>

definition set_view_engine :: "runtime \<Rightarrow> state \<Rightarrow> state" where
  "set_view_engine rt s =
     emit (AppSet ''views'' (dirname rt @ ''/../views''))
       (emit (AppSet ''view engine'' ''handlebars'')
          (emit (AppEngine ''handlebars'' (JObj [(''defaultLayout'', JStr '''')])) s))"

text \<open>Lines 102-103.\<close>

definition use_favicon :: "runtime \<Rightarrow> state \<Rightarrow> state" where
  "use_favicon rt s =
     emit (AppUse None
             (Favicon (path_resolve rt
                (path (staticAssets (config s)) @ ''/img/favicon.png'')))) s"

definition use_cookieParser :: "state \<Rightarrow> state" where
  "use_cookieParser s = emit (AppUse None CookieParser) s"

text \<open>
  Modelled from the spec: \<^verbatim>\<open>router.js\<close> is not among the sources. The
  specification treats the route table as an opaque function that receives the server
  instance and attaches handlers. Line 105, \<^verbatim>\<open>router(app)\<close>, passes it the
  server instance and nothing else, so the call is recorded as one effect on the server.
\<close>

definition mount_routes :: "state \<Rightarrow> state" where
  "mount_routes s = emit Router s"

text \<open>Lines 111-116: \<^verbatim>\<open>app.listen(config.connections.http.port, (err) => ...)\<close>.\<close>

definition app_listen :: "state \<Rightarrow> state" where
  "app_listen s =
     register ListenCb (emit (AppListen (port (http (connections (config s))))) s)"

definition listen_cb :: "js_error option \<Rightarrow> state \<Rightarrow> state" where
  "listen_cb err s =
     (case err of
        Some e \<Rightarrow> throw e s
      | None \<Rightarrow>
          console_log (''Listening on port '' @ port (http (connections (config s)))) s)"

text \<open>The script: its statements in the order of the file.\<close>

definition main :: "runtime \<Rightarrow> config \<Rightarrow> state" where
  "main rt c =
     (let s = mongoose_connect (init c);
          (redisClient, s) = redis_createClient s;
          s = redis_connect redisClient s;
          s = express s;
          s = use_static rt s;
          s = use_compression s;
          s = use_urlencoded s;
          s = use_session redisClient s;
          s = set_view_engine rt s;
          s = use_favicon rt s;
          s = use_cookieParser s;
          s = mount_routes s
      in app_listen s)"

subsection \<open>The event loop\<close>

text \<open>
  The three asynchronous operations report their outcome after the script has run to
  completion (a callback never interrupts the code that registered it). The outcome
  carries the error, if any. A continuation runs at most once, and only in a process that
  is still running. A fulfilled redis promise runs nothing: the script attaches a
  rejection handler only.

  A redis client is also an event emitter, and reports a failure of its connection by
  emitting \<^verbatim>\<open>'error'\<close>. The script never calls \<^verbatim>\<open>redisClient.on('error', ...)\<close>:
  lines 50-54 create the client and attach \<^verbatim>\<open>.catch(console.error)\<close> to the promise
  of \<^verbatim>\<open>connect()\<close>, nothing else. An emitter with no listener for
  \<^verbatim>\<open>'error'\<close> throws the error instead, and no code of the script is on the stack
  to catch it.
\<close>

datatype completion =
    MongooseDone "js_error option"
  | RedisConnectDone "js_error option"
  | RedisErrorEvent nat js_error
  | ListenDone "js_error option"

text \<open>
  An outcome can be delivered when its continuation is still outstanding; an
  \<^verbatim>\<open>'error'\<close> event when the client that emits it exists.
\<close>

fun ready :: "state \<Rightarrow> completion \<Rightarrow> bool" where
  "ready s (MongooseDone err) = (MongooseCb \<in> set (pending s))"
| "ready s (RedisConnectDone err) = (RedisCatch \<in> set (pending s))"
| "ready s (RedisErrorEvent h e) = (h < length (clients s))"
| "ready s (ListenDone err) = (ListenCb \<in> set (pending s))"

fun settle :: "completion \<Rightarrow> state \<Rightarrow> state" where
  "settle (MongooseDone err) s = s\<lparr>pending := remove1 MongooseCb (pending s)\<rparr>"
| "settle (RedisConnectDone err) s = s\<lparr>pending := remove1 RedisCatch (pending s)\<rparr>"
| "settle (RedisErrorEvent h e) s = s"
| "settle (ListenDone err) s = s\<lparr>pending := remove1 ListenCb (pending s)\<rparr>"

fun fire :: "completion \<Rightarrow> state \<Rightarrow> state" where
  "fire (MongooseDone err) s = mongoose_cb err s"
| "fire (RedisConnectDone None) s = s"
| "fire (RedisConnectDone (Some e)) s = redis_catch e s"
| "fire (RedisErrorEvent h e) s = throw e s"
| "fire (ListenDone err) s = listen_cb err s"

definition deliver :: "state \<Rightarrow> completion \<Rightarrow> state" where
  "deliver s ev =
     (if status s = Running \<and> ready s ev then fire ev (settle ev s) else s)"

definition run :: "runtime \<Rightarrow> config \<Rightarrow> completion list \<Rightarrow> state" where
  "run rt c sched = foldl deliver (main rt c) sched"

subsection \<open>Reading a trace\<close>

fun is_app_call :: "effect \<Rightarrow> bool" where
  "is_app_call (AppUse p m) = True"
| "is_app_call (AppEngine n v) = True"
| "is_app_call (AppSet k v) = True"
| "is_app_call Router = True"
| "is_app_call (AppListen p) = True"
| "is_app_call e = False"

text \<open>\<open>precedes a b xs\<close>: \<open>a\<close> occurs in \<open>xs\<close> and \<open>b\<close> occurs after its first occurrence.\<close>

definition precedes :: "'a \<Rightarrow> 'a \<Rightarrow> 'a list \<Rightarrow> bool" where
  "precedes a b xs = (b \<in> set (drop 1 (dropWhile (\<lambda>x. x \<noteq> a) xs)))"

fun is_script_effect :: "effect \<Rightarrow> bool" where
  "is_script_effect (ConsoleLog m) = False"
| "is_script_effect (ConsoleError e) = False"
| "is_script_effect (Uncaught e) = False"
| "is_script_effect e = True"

fun is_connect :: "effect \<Rightarrow> bool" where
  "is_connect (MongooseConnect u) = True"
| "is_connect (RedisConnect h) = True"
| "is_connect e = False"

fun listen_port :: "effect \<Rightarrow> string option" where
  "listen_port (AppListen p) = Some p"
| "listen_port e = None"

fun session_of :: "effect \<Rightarrow> jsval option" where
  "session_of (AppUse p (Session opts)) = Some opts"
| "session_of e = None"

fun created_client :: "effect \<Rightarrow> (nat \<times> jsval) option" where
  "created_client (RedisCreateClient h opts) = Some (h, opts)"
| "created_client e = None"

fun static_root :: "effect \<Rightarrow> (string option \<times> string) option" where
  "static_root (AppUse p (Static root)) = Some (p, root)"
| "static_root e = None"

fun favicon_file :: "effect \<Rightarrow> string option" where
  "favicon_file (AppUse p (Favicon f)) = Some f"
| "favicon_file e = None"

definition is_absolute :: "string \<Rightarrow> bool" where
  "is_absolute p = (take 1 p = ''/'')"

subsection \<open>A concrete deployment\<close>

text \<open>
  One configuration and one runtime, to evaluate the script on. \<open>posix_resolve cwd\<close> is
  \<^verbatim>\<open>path.resolve\<close> on POSIX with one argument, in a process whose working directory
  is the absolute path \<open>cwd\<close>: a relative path (the empty one too) is put under the
  working directory, then the path is cut at its slashes, empty segments and \<^verbatim>\<open>.\<close>
  are dropped, \<^verbatim>\<open>..\<close> removes the segment before it (and nothing at the root), and
  the segments that remain are joined behind a leading slash.
\<close>

fun segments :: "string \<Rightarrow> string list" where
  "segments [] = [[]]"
| "segments (c # cs) =
     (if c = CHR ''/'' then [] # segments cs
      else (case segments cs of
              [] \<Rightarrow> [[c]]
            | seg # segs \<Rightarrow> (c # seg) # segs))"

fun normalize_segments :: "string list \<Rightarrow> string list \<Rightarrow> string list" where
  "normalize_segments kept [] = rev kept"
| "normalize_segments kept (seg # segs) =
     (if seg = [] \<or> seg = ''.'' then normalize_segments kept segs
      else if seg = ''..'' then normalize_segments (drop 1 kept) segs
      else normalize_segments (seg # kept) segs)"

fun join_segments :: "string list \<Rightarrow> string" where
  "join_segments [] = []"
| "join_segments [seg] = seg"
| "join_segments (seg # segs) = seg @ ''/'' @ join_segments segs"

definition posix_resolve :: "string \<Rightarrow> string \<Rightarrow> string" where
  "posix_resolve cwd p =
     ''/'' @ join_segments (normalize_segments []
        (segments (if take 1 p = ''/'' then p else cwd @ ''/'' @ p)))"

definition example_config :: config where
  "example_config =
     \<lparr>connections =
        \<lparr>mongo = ''mongodb://127.0.0.1/ConfigExample'',
         redis = ''redis://127.0.0.1:6379'',
         http = \<lparr>port = ''3000''\<rparr>\<rparr>,
      secret = ''Config Example'',
      staticAssets = \<lparr>path = ''hosted''\<rparr>\<rparr>"

definition example_runtime :: runtime where
  "example_runtime = \<lparr>path_resolve = posix_resolve ''/app'', dirname = ''/app/src''\<rparr>"

section \<open>The configuration resolver\<close>

text \<open>
  Modelled from the spec: \<^verbatim>\<open>config.js\<close>, the module that builds the configuration
  object, is not among the sources. The specification gives its policy: for each field,
  the named environment variable is used if it is set and non-empty, and a fixed default
  otherwise; no error is raised. The names of the variables and the default values are not
  given, so both are parameters.
\<close>

record env_names =
  mongo_var :: string
  redis_var :: string
  port_var :: string
  secret_var :: string
  static_var :: string

definition recognized :: "env_names \<Rightarrow> string list" where
  "recognized ns = [mongo_var ns, redis_var ns, port_var ns, secret_var ns, static_var ns]"

text \<open>
  Modelled from the spec: the policy for one field (section 4.1), "if a named environment
  variable is set and non-empty, use it; otherwise use a fixed default".
\<close>

definition env_or_default :: "(string \<rightharpoonup> string) \<Rightarrow> string \<Rightarrow> string \<Rightarrow> string" where
  "env_or_default env name dflt =
     (case env name of
        Some v \<Rightarrow> if v = [] then dflt else v
      | None \<Rightarrow> dflt)"

text \<open>
  Modelled from the spec: the resolver applies that policy to each of the five fields of
  the configuration structure (section 3), and to nothing else.
\<close>

definition resolve_config :: "env_names \<Rightarrow> config \<Rightarrow> (string \<rightharpoonup> string) \<Rightarrow> config" where
  "resolve_config ns dflt env =
     \<lparr>connections =
        \<lparr>mongo = env_or_default env (mongo_var ns) (mongo (connections dflt)),
         redis = env_or_default env (redis_var ns) (redis (connections dflt)),
         http = \<lparr>port = env_or_default env (port_var ns) (port (http (connections dflt)))\<rparr>\<rparr>,
      secret = env_or_default env (secret_var ns) (secret dflt),
      staticAssets =
        \<lparr>path = env_or_default env (static_var ns) (path (staticAssets dflt))\<rparr>\<rparr>"

definition example_names :: env_names where
  "example_names =
     \<lparr>mongo_var = ''MONGODB_URI'', redis_var = ''REDISCLOUD_URL'', port_var = ''PORT'',
      secret_var = ''SECRET'', static_var = ''STATIC_PATH''\<rparr>"

text \<open>
  Two environments for that resolver: one that sets every recognized variable to a
  non-empty value, and one that sets every recognized variable but leaves the database
  URL empty.
\<close>

definition production_env :: "string \<rightharpoonup> string" where
  "production_env =
     map_of [(''MONGODB_URI'', ''mongodb://db.example.org/app''),
             (''REDISCLOUD_URL'', ''redis://cache.example.org:6379''),
             (''PORT'', ''8080''),
             (''SECRET'', ''production secret''),
             (''STATIC_PATH'', ''client'')]"

definition empty_mongo_env :: "string \<rightharpoonup> string" where
  "empty_mongo_env =
     map_of [(''MONGODB_URI'', ''''),
             (''REDISCLOUD_URL'', ''redis://cache.example.org:6379''),
             (''PORT'', ''8080''),
             (''SECRET'', ''production secret''),
             (''STATIC_PATH'', ''client'')]"

section \<open>The runtime of the concrete deployment\<close>

lemma posix_resolve_absolute: "is_absolute (posix_resolve cwd p)"
  by (simp add: posix_resolve_def is_absolute_def)

lemma example_static_root: "posix_resolve ''/app'' ''hosted'' = ''/app/hosted''"
  by (simp add: posix_resolve_def)

lemma example_favicon_file:
  "posix_resolve ''/app'' ''hosted/img/favicon.png'' = ''/app/hosted/img/favicon.png''"
  by (simp add: posix_resolve_def)

text \<open>Dot segments, doubled and trailing slashes, the empty path and the root.\<close>

lemma posix_resolve_normalises:
  "posix_resolve ''/app'' ''./hosted//img/../'' = ''/app/hosted''"
  "posix_resolve ''/app'' '''' = ''/app''"
  "posix_resolve ''/app'' ''/srv/www/'' = ''/srv/www''"
  "posix_resolve ''/app'' ''../../..'' = ''/''"
  by (simp_all add: posix_resolve_def)

section \<open>The script's trace\<close>

lemma main_trace:
  "trace (main rt c) =
     [MongooseConnect (mongo (connections c)),
      RedisCreateClient 0
        (JObj [(''legacyMode'', JBool True), (''url'', JStr (redis (connections c)))]),
      RedisConnect 0,
      Express,
      AppUse (Some ''/assets'') (Static (path_resolve rt (path (staticAssets c)))),
      AppUse None Compression,
      AppUse None (UrlEncoded (JObj [(''extended'', JBool True)])),
      AppUse None (Session (session_options c 0)),
      AppEngine ''handlebars'' (JObj [(''defaultLayout'', JStr '''')]),
      AppSet ''view engine'' ''handlebars'',
      AppSet ''views'' (dirname rt @ ''/../views''),
      AppUse None (Favicon (path_resolve rt (path (staticAssets c) @ ''/img/favicon.png''))),
      AppUse None CookieParser,
      Router,
      AppListen (port (http (connections c)))]"
  by (simp add: main_def init_def emit_def register_def mongoose_connect_def
      redis_createClient_def redis_connect_def express_def use_static_def
      use_compression_def use_urlencoded_def use_session_def set_view_engine_def
      use_favicon_def use_cookieParser_def mount_routes_def app_listen_def Let_def)

section \<open>Facts about the script and the event loop\<close>

lemmas step_defs = init_def emit_def register_def mongoose_connect_def
  redis_createClient_def redis_connect_def express_def use_static_def
  use_compression_def use_urlencoded_def use_session_def set_view_engine_def
  use_favicon_def use_cookieParser_def mount_routes_def app_listen_def

lemmas cb_defs = mongoose_cb_def listen_cb_def redis_catch_def throw_def console_log_def
  console_error_def emit_def

lemma main_status: "status (main rt c) = Running"
  by (simp add: main_def step_defs Let_def)

lemma main_pending: "pending (main rt c) = [MongooseCb, RedisCatch, ListenCb]"
  by (simp add: main_def step_defs Let_def)

lemma main_config: "config (main rt c) = c"
  by (simp add: main_def step_defs Let_def)

lemma main_clients:
  "clients (main rt c) =
     [JObj [(''legacyMode'', JBool True), (''url'', JStr (redis (connections c)))]]"
  by (simp add: main_def step_defs Let_def)

lemma fire_config: "config (fire ev s) = config s"
  by (induction ev s rule: fire.induct) (auto simp: cb_defs split: option.splits)

lemma fire_clients: "clients (fire ev s) = clients s"
  by (induction ev s rule: fire.induct) (auto simp: cb_defs split: option.splits)

lemma fire_pending: "pending (fire ev s) = pending s"
  by (induction ev s rule: fire.induct) (auto simp: cb_defs split: option.splits)

lemma settle_config: "config (settle ev s) = config s"
  by (cases ev) simp_all

lemma settle_clients: "clients (settle ev s) = clients s"
  by (cases ev) simp_all

lemma settle_trace: "trace (settle ev s) = trace s"
  by (cases ev) simp_all

lemma deliver_config: "config (deliver s ev) = config s"
  by (simp add: deliver_def fire_config settle_config)

lemma deliver_clients: "clients (deliver s ev) = clients s"
  by (simp add: deliver_def fire_clients settle_clients)

lemma deliver_stopped: "status s \<noteq> Running \<Longrightarrow> deliver s ev = s"
  by (simp add: deliver_def)

lemma foldl_deliver_stopped: "status s \<noteq> Running \<Longrightarrow> foldl deliver s evs = s"
  by (induction evs) (simp_all add: deliver_stopped)

lemma foldl_deliver_config: "config (foldl deliver s evs) = config s"
  by (induction evs arbitrary: s) (simp_all add: deliver_config)

lemma foldl_deliver_clients: "clients (foldl deliver s evs) = clients s"
  by (induction evs arbitrary: s) (simp_all add: deliver_clients)

text \<open>A callback only ever writes to the console or throws: it makes no library call.\<close>

lemma fire_trace:
  "\<exists>ys. trace (fire ev s) = trace s @ ys \<and> filter is_script_effect ys = []"
  by (induction ev s rule: fire.induct) (auto simp: cb_defs split: option.splits)

lemma deliver_trace:
  "\<exists>ys. trace (deliver s ev) = trace s @ ys \<and> filter is_script_effect ys = []"
proof (cases "status s = Running \<and> ready s ev")
  case True
  then show ?thesis
    using fire_trace [of ev "settle ev s"]
    by (simp add: deliver_def settle_trace)
next
  case False
  then show ?thesis by (auto simp: deliver_def)
qed

lemma foldl_deliver_trace:
  "\<exists>ys. trace (foldl deliver s evs) = trace s @ ys \<and> filter is_script_effect ys = []"
proof (induction evs arbitrary: s)
  case Nil
  then show ?case by simp
next
  case (Cons ev evs)
  obtain ys where ys: "trace (deliver s ev) = trace s @ ys" "filter is_script_effect ys = []"
    using deliver_trace by blast
  obtain zs where zs: "trace (foldl deliver (deliver s ev) evs) = trace (deliver s ev) @ zs"
    "filter is_script_effect zs = []"
    using Cons.IH by blast
  show ?case using ys zs by simp
qed

lemma run_trace:
  "\<exists>ys. trace (run rt c sched) = trace (main rt c) @ ys \<and> filter is_script_effect ys = []"
  unfolding run_def by (rule foldl_deliver_trace)

lemma run_append: "run rt c (pre @ post) = foldl deliver (run rt c pre) post"
  by (simp add: run_def)

lemma run_config: "config (run rt c sched) = c"
  by (simp add: run_def foldl_deliver_config main_config)

lemma run_clients: "clients (run rt c sched) = clients (main rt c)"
  by (simp add: run_def foldl_deliver_clients)

lemma no_script_effect_filter:
  assumes "filter is_script_effect ys = []" and "\<And>e. P e \<Longrightarrow> is_script_effect e"
  shows "filter P ys = []"
  using assms by (induction ys) (auto split: if_splits)

lemma no_script_effect_map_filter:
  assumes "filter is_script_effect ys = []" and "\<And>e. \<not> is_script_effect e \<Longrightarrow> f e = None"
  shows "List.map_filter f ys = []"
  using assms by (induction ys) (auto split: if_splits)

lemma run_filter:
  assumes "\<And>e. P e \<Longrightarrow> is_script_effect e"
  shows "filter P (trace (run rt c sched)) = filter P (trace (main rt c))"
proof -
  obtain ys where "trace (run rt c sched) = trace (main rt c) @ ys"
    and "filter is_script_effect ys = []"
    using run_trace by blast
  then show ?thesis using no_script_effect_filter [OF _ assms] by simp
qed

lemma run_map_filter:
  assumes "\<And>e. \<not> is_script_effect e \<Longrightarrow> f e = None"
  shows "List.map_filter f (trace (run rt c sched)) = List.map_filter f (trace (main rt c))"
proof -
  obtain ys where "trace (run rt c sched) = trace (main rt c) @ ys"
    and "filter is_script_effect ys = []"
    using run_trace by blast
  then show ?thesis
    using no_script_effect_map_filter [OF _ assms] by (simp add: List.map_filter_def)
qed

lemma run_set: "set (trace (main rt c)) \<subseteq> set (trace (run rt c sched))"
  using run_trace [of rt c sched] by auto

lemma run_app_calls:
  "filter is_app_call (trace (run rt c sched)) = filter is_app_call (trace (main rt c))"
proof -
  have "is_app_call e \<Longrightarrow> is_script_effect e" for e
    by (cases e) simp_all
  then show ?thesis by (rule run_filter)
qed

lemma run_connects:
  "filter is_connect (trace (run rt c sched)) =
     [MongooseConnect (mongo (connections c)), RedisConnect 0]"
proof -
  have "is_connect e \<Longrightarrow> is_script_effect e" for e
    by (cases e) simp_all
  then have "filter is_connect (trace (run rt c sched)) = filter is_connect (trace (main rt c))"
    by (rule run_filter)
  then show ?thesis by (simp add: main_trace)
qed

lemma run_listen_ports:
  "List.map_filter listen_port (trace (run rt c sched)) = [port (http (connections c))]"
proof -
  have "\<not> is_script_effect e \<Longrightarrow> listen_port e = None" for e
    by (cases e) simp_all
  then have "List.map_filter listen_port (trace (run rt c sched)) =
      List.map_filter listen_port (trace (main rt c))"
    by (rule run_map_filter)
  then show ?thesis by (simp add: main_trace)
qed

lemma listen_in_run: "AppListen (port (http (connections c))) \<in> set (trace (run rt c sched))"
  using run_set [of rt c sched] by (auto simp: main_trace)

lemma precedes_append_mem:
  assumes "a \<in> set xs" and "b \<in> set ys"
  shows "precedes a b (xs @ ys)"
proof -
  have "dropWhile (\<lambda>x. x \<noteq> a) (xs @ ys) = dropWhile (\<lambda>x. x \<noteq> a) xs @ ys"
    using assms(1) by simp
  moreover have "dropWhile (\<lambda>x. x \<noteq> a) xs \<noteq> []"
    using assms(1) by simp
  ultimately show ?thesis
    using assms(2) by (cases "dropWhile (\<lambda>x. x \<noteq> a) xs") (auto simp: precedes_def)
qed

text \<open>What each continuation does when its outcome arrives in a running process.\<close>

lemma deliver_mongoose_failure:
  assumes "status s = Running" and "MongooseCb \<in> set (pending s)"
  shows "trace (deliver s (MongooseDone (Some e))) =
           trace s @ [ConsoleLog ''Could not connect to database'', Uncaught e]"
    and "status (deliver s (MongooseDone (Some e))) = Crashed e"
  using assms by (simp_all add: deliver_def cb_defs)

lemma deliver_redis_failure:
  assumes "status s = Running" and "RedisCatch \<in> set (pending s)"
  shows "trace (deliver s (RedisConnectDone (Some e))) = trace s @ [ConsoleError e]"
    and "status (deliver s (RedisConnectDone (Some e))) = Running"
  using assms by (simp_all add: deliver_def cb_defs)

lemma deliver_redis_status: "status (deliver s (RedisConnectDone x)) = status s"
  by (cases x) (simp_all add: deliver_def cb_defs)

lemma deliver_listen:
  assumes "status s = Running" and "ListenCb \<in> set (pending s)"
  shows "trace (deliver s (ListenDone x)) =
           trace s @ [case x of Some e \<Rightarrow> Uncaught e
                      | None \<Rightarrow> ConsoleLog (''Listening on port '' @
                                   port (http (connections (config s))))]"
    and "status (deliver s (ListenDone x)) = (case x of Some e \<Rightarrow> Crashed e | None \<Rightarrow> Running)"
  using assms by (simp_all add: deliver_def cb_defs split: option.splits)

section \<open>The claims\<close>

subsection \<open>Middleware order\<close>

text \<open>
  C1. The calls the script makes on the server instance are, in this order: static-asset
  serving under the URL prefix /assets, compression, URL-encoded body parsing, the session
  middleware, the registration of the templating engine (engine, view engine, views),
  favicon serving, cookie parsing, the mounting of the route table, and listen. In
  particular static serving comes before the session middleware, that before the route
  table, and the listen call is the last statement of the script. No callback adds a call
  on the server, so the sequence is the same in every run.
\<close>

theorem middleware_order:
  "filter is_app_call (trace (main rt c)) =
     [AppUse (Some ''/assets'') (Static (path_resolve rt (path (staticAssets c)))),
      AppUse None Compression,
      AppUse None (UrlEncoded (JObj [(''extended'', JBool True)])),
      AppUse None (Session (session_options c 0)),
      AppEngine ''handlebars'' (JObj [(''defaultLayout'', JStr '''')]),
      AppSet ''view engine'' ''handlebars'',
      AppSet ''views'' (dirname rt @ ''/../views''),
      AppUse None (Favicon (path_resolve rt (path (staticAssets c) @ ''/img/favicon.png''))),
      AppUse None CookieParser,
      Router,
      AppListen (port (http (connections c)))]
   \<and> precedes (AppUse (Some ''/assets'') (Static (path_resolve rt (path (staticAssets c)))))
        (AppUse None (Session (session_options c 0))) (trace (main rt c))
   \<and> precedes (AppUse None (Session (session_options c 0))) Router (trace (main rt c))
   \<and> precedes Router (AppListen (port (http (connections c)))) (trace (main rt c))
   \<and> last (trace (main rt c)) = AppListen (port (http (connections c)))
   \<and> filter is_app_call (trace (run rt c sched)) = filter is_app_call (trace (main rt c))"
  by (simp add: run_app_calls main_trace precedes_def)

theorem middleware_order_witness:
  "filter is_app_call (trace (main example_runtime example_config)) =
     [AppUse (Some ''/assets'') (Static ''/app/hosted''),
      AppUse None Compression,
      AppUse None (UrlEncoded (JObj [(''extended'', JBool True)])),
      AppUse None (Session (session_options example_config 0)),
      AppEngine ''handlebars'' (JObj [(''defaultLayout'', JStr '''')]),
      AppSet ''view engine'' ''handlebars'',
      AppSet ''views'' ''/app/src/../views'',
      AppUse None (Favicon ''/app/hosted/img/favicon.png''),
      AppUse None CookieParser,
      Router,
      AppListen ''3000'']"
  using middleware_order [of example_runtime example_config "[]"]
  by (simp add: example_runtime_def example_config_def example_static_root example_favicon_file)

subsection \<open>Failure of the database connection\<close>

text \<open>
  C2, as stated: when the database connection attempt reports failure, the process
  terminates before it attempts to bind the listen socket. It does not: the listen call is
  a statement of the script, and the failure reaches the mongoose callback only after the
  script has finished. In the run below the listen call is in the trace before the uncaught
  error, and not after it.
\<close>

theorem exit_before_listen_counterexample:
  "status (run example_runtime example_config [MongooseDone (Some ''ECONNREFUSED'')]) =
     Crashed ''ECONNREFUSED''
   \<and> precedes (AppListen ''3000'') (Uncaught ''ECONNREFUSED'')
        (trace (run example_runtime example_config [MongooseDone (Some ''ECONNREFUSED'')]))
   \<and> \<not> precedes (Uncaught ''ECONNREFUSED'') (AppListen ''3000'')
        (trace (run example_runtime example_config [MongooseDone (Some ''ECONNREFUSED'')]))"
  by (simp add: run_def deliver_def cb_defs main_status main_pending main_trace
      precedes_def example_config_def)

text \<open>
  C2, amended. Whenever the failure of the database connection is reported to a running
  process (after any earlier outcomes \<open>pre\<close>), the callback logs
  \<^verbatim>\<open>Could not connect to database\<close> and throws the error, which nothing catches: the
  process ends with that error and exit code 1. Nothing runs afterwards, whatever outcomes
  \<open>post\<close> arrive (no degraded mode), and the trace holds the one mongoose connect call of
  the script and no other (no retry). The listen call was issued before the termination.
\<close>

theorem mongoose_failure_fatal:
  assumes "status (run rt c pre) = Running"
    and "MongooseCb \<in> set (pending (run rt c pre))"
  shows "trace (run rt c (pre @ MongooseDone (Some e) # post)) =
           trace (run rt c pre) @ [ConsoleLog ''Could not connect to database'', Uncaught e]
       \<and> status (run rt c (pre @ MongooseDone (Some e) # post)) = Crashed e
       \<and> exit_code (status (run rt c (pre @ MongooseDone (Some e) # post))) = Some 1
       \<and> filter is_connect (trace (run rt c (pre @ MongooseDone (Some e) # post))) =
           [MongooseConnect (mongo (connections c)), RedisConnect 0]
       \<and> precedes (AppListen (port (http (connections c)))) (Uncaught e)
           (trace (run rt c (pre @ MongooseDone (Some e) # post)))"
proof -
  let ?s = "run rt c pre"
  let ?s' = "deliver ?s (MongooseDone (Some e))"
  have st: "status ?s' = Crashed e"
    and tr: "trace ?s' = trace ?s @ [ConsoleLog ''Could not connect to database'', Uncaught e]"
    using deliver_mongoose_failure [OF assms] by simp_all
  have "run rt c (pre @ MongooseDone (Some e) # post) = foldl deliver ?s' post"
    by (simp add: run_append)
  also have "\<dots> = ?s'"
    using st by (simp add: foldl_deliver_stopped)
  finally have eq: "run rt c (pre @ MongooseDone (Some e) # post) = ?s'" .
  have "precedes (AppListen (port (http (connections c)))) (Uncaught e) (trace ?s')"
    unfolding tr by (rule precedes_append_mem) (simp_all add: listen_in_run)
  then show ?thesis
    using st tr by (simp add: eq [symmetric] run_connects)
qed

theorem mongoose_failure_fatal_witness:
  "status (run example_runtime example_config []) = Running
   \<and> MongooseCb \<in> set (pending (run example_runtime example_config []))
   \<and> status (run example_runtime example_config
        [MongooseDone (Some ''ECONNREFUSED''), ListenDone None]) = Crashed ''ECONNREFUSED''
   \<and> trace (run example_runtime example_config
        [MongooseDone (Some ''ECONNREFUSED''), ListenDone None]) =
      trace (run example_runtime example_config []) @
        [ConsoleLog ''Could not connect to database'', Uncaught ''ECONNREFUSED'']"
proof -
  have h1: "status (run example_runtime example_config []) = Running"
    by (simp add: run_def main_status)
  have h2: "MongooseCb \<in> set (pending (run example_runtime example_config []))"
    by (simp add: run_def main_pending)
  show ?thesis
    using h1 h2 mongoose_failure_fatal [OF h1 h2, of "''ECONNREFUSED''" "[ListenDone None]"]
    by simp
qed

subsection \<open>Failure of the cache connection\<close>

text \<open>
  On the promise of \<^verbatim>\<open>connect()\<close> the script does what it sets out to do: whenever
  the rejection is reported to a running process, the handler writes the error to the
  console and the process keeps running; no outcome of that promise changes the status of
  a process in any state. The calls on the server instance are those of the script up to
  and including listen, the listen call is in the trace, and the trace holds the one redis
  connect call of the script and no other.
\<close>

lemma redis_rejection_logged:
  assumes "status (run rt c pre) = Running"
    and "RedisCatch \<in> set (pending (run rt c pre))"
  shows "trace (run rt c (pre @ [RedisConnectDone (Some e)])) =
           trace (run rt c pre) @ [ConsoleError e]
       \<and> status (run rt c (pre @ [RedisConnectDone (Some e)])) = Running
       \<and> (\<forall>s x. status (deliver s (RedisConnectDone x)) = status s)
       \<and> filter is_app_call (trace (run rt c (pre @ RedisConnectDone (Some e) # post))) =
           filter is_app_call (trace (main rt c))
       \<and> AppListen (port (http (connections c))) \<in>
           set (trace (run rt c (pre @ RedisConnectDone (Some e) # post)))
       \<and> filter is_connect (trace (run rt c (pre @ RedisConnectDone (Some e) # post))) =
           [MongooseConnect (mongo (connections c)), RedisConnect 0]"
proof -
  have "run rt c (pre @ [RedisConnectDone (Some e)]) =
          deliver (run rt c pre) (RedisConnectDone (Some e))"
    by (simp add: run_append)
  then show ?thesis
    using deliver_redis_failure [OF assms, of e]
    by (simp add: deliver_redis_status run_app_calls listen_in_run run_connects)
qed




subsection \<open>The listen call\<close>

text \<open>
  C4. Every run holds exactly one listen call, on the configured port. When its outcome
  is reported to a running process there are two cases and no other: with an error the
  callback throws it, nothing catches it, and the process ends with that error and exit
  code 1; without an error the callback logs \<^verbatim>\<open>Listening on port\<close> followed by the
  port, and the process keeps running.
\<close>

theorem listen_outcomes:
  assumes "status (run rt c pre) = Running"
    and "ListenCb \<in> set (pending (run rt c pre))"
  shows "List.map_filter listen_port (trace (run rt c pre)) = [port (http (connections c))]
       \<and> (\<forall>x. trace (run rt c (pre @ [ListenDone x])) =
                trace (run rt c pre) @
                  [case x of Some e \<Rightarrow> Uncaught e
                   | None \<Rightarrow> ConsoleLog (''Listening on port '' @ port (http (connections c)))])
       \<and> (\<forall>x. status (run rt c (pre @ [ListenDone x])) =
                (case x of Some e \<Rightarrow> Crashed e | None \<Rightarrow> Running))
       \<and> (\<forall>e. exit_code (status (run rt c (pre @ [ListenDone (Some e)]))) = Some 1)
       \<and> exit_code (status (run rt c (pre @ [ListenDone None]))) = None"
proof -
  have "run rt c (pre @ [ListenDone x]) = deliver (run rt c pre) (ListenDone x)" for x
    by (simp add: run_append)
  then show ?thesis
    using deliver_listen [OF assms]
    by (simp add: run_listen_ports run_config split: option.splits)
qed

theorem listen_outcomes_witness:
  "status (run example_runtime example_config [RedisConnectDone None]) = Running
   \<and> ListenCb \<in> set (pending (run example_runtime example_config [RedisConnectDone None]))
   \<and> List.map_filter listen_port
       (trace (run example_runtime example_config [RedisConnectDone None])) = [''3000'']
   \<and> trace (run example_runtime example_config [RedisConnectDone None, ListenDone None]) =
       trace (run example_runtime example_config [RedisConnectDone None]) @
         [ConsoleLog ''Listening on port 3000'']
   \<and> status (run example_runtime example_config
        [RedisConnectDone None, ListenDone (Some ''EADDRINUSE'')]) = Crashed ''EADDRINUSE''"
proof -
  have h1: "status (run example_runtime example_config [RedisConnectDone None]) = Running"
    by (simp add: run_def main_status deliver_redis_status)
  have h2: "ListenCb \<in> set (pending (run example_runtime example_config [RedisConnectDone None]))"
    by (simp add: run_def deliver_def main_status main_pending)
  have a: "trace (run example_runtime example_config ([RedisConnectDone None] @ [ListenDone None])) =
       trace (run example_runtime example_config [RedisConnectDone None]) @
         [ConsoleLog ''Listening on port 3000'']"
    and b: "status (run example_runtime example_config
        ([RedisConnectDone None] @ [ListenDone (Some ''EADDRINUSE'')])) = Crashed ''EADDRINUSE''"
    and c: "List.map_filter listen_port
       (trace (run example_runtime example_config [RedisConnectDone None])) = [''3000'']"
    using listen_outcomes [OF h1 h2] by (simp_all add: example_config_def)
  show ?thesis using h1 h2 a b c by simp
qed

subsection \<open>The session middleware\<close>

lemma run_sessions:
  "List.map_filter session_of (trace (run rt c sched)) = [session_options c 0]"
proof -
  have "\<not> is_script_effect e \<Longrightarrow> session_of e = None" for e
    by (cases e) simp_all
  then have "List.map_filter session_of (trace (run rt c sched)) =
      List.map_filter session_of (trace (main rt c))"
    by (rule run_map_filter)
  then show ?thesis by (simp add: main_trace)
qed

lemma run_created_clients:
  "List.map_filter created_client (trace (run rt c sched)) =
     [(0, JObj [(''legacyMode'', JBool True), (''url'', JStr (redis (connections c)))])]"
proof -
  have "\<not> is_script_effect e \<Longrightarrow> created_client e = None" for e
    by (cases e) simp_all
  then have "List.map_filter created_client (trace (run rt c sched)) =
      List.map_filter created_client (trace (main rt c))"
    by (rule run_map_filter)
  then show ?thesis by (simp add: main_trace)
qed

text \<open>
  C5. The script installs one session middleware. Its options name the cookie
  \<^verbatim>\<open>sessionid\<close> whatever the configuration, give as store a RedisStore built on the
  client bound to \<^verbatim>\<open>redisClient\<close> (the handle on which the script called connect),
  take the secret from the configuration, set resave and saveUninitialized to true, and
  give a cookie object whose only property is httpOnly, set to true: secure and sameSite
  are absent.
\<close>

theorem session_configuration:
  "List.map_filter session_of (trace (main rt c)) = [session_options c 0]
   \<and> RedisConnect 0 \<in> set (trace (main rt c))
   \<and> get_prop (session_options c h) ''key'' = Some (JStr ''sessionid'')
   \<and> get_prop (session_options c h) ''store'' =
       Some (JRedisStore (JObj [(''client'', JClient h)]))
   \<and> get_prop (session_options c h) ''secret'' = Some (JStr (secret c))
   \<and> get_prop (session_options c h) ''resave'' = Some (JBool True)
   \<and> get_prop (session_options c h) ''saveUninitialized'' = Some (JBool True)
   \<and> get_prop (session_options c h) ''cookie'' = Some (JObj [(''httpOnly'', JBool True)])
   \<and> map_option (\<lambda>ck. (get_prop ck ''httpOnly'', get_prop ck ''secure'', get_prop ck ''sameSite''))
        (get_prop (session_options c h) ''cookie'') = Some (Some (JBool True), None, None)"
  by (simp add: main_trace session_options_def)

theorem session_configuration_witness:
  "List.map_filter session_of (trace (main example_runtime example_config)) =
     [JObj [(''key'', JStr ''sessionid''),
            (''store'', JRedisStore (JObj [(''client'', JClient 0)])),
            (''secret'', JStr ''Config Example''),
            (''resave'', JBool True),
            (''saveUninitialized'', JBool True),
            (''cookie'', JObj [(''httpOnly'', JBool True)])]]
   \<and> get_prop (session_options example_config 0) ''secret'' = Some (JStr ''Config Example'')"
  using session_configuration [of example_runtime example_config 0]
  by (simp add: session_options_def example_config_def)

subsection \<open>Listening does not wait for the connections\<close>

text \<open>
  C7. In the script both connection attempts are started, then the middleware is
  attached, then listen is called, and when the script ends all three continuations are
  still outstanding: the listen call has waited for neither connection. There is a run in
  which the server reports that it is listening while the outcome of the database
  connection (and of the cache connection) has not arrived.
\<close>

theorem listen_does_not_wait:
  "pending (main rt c) = [MongooseCb, RedisCatch, ListenCb]
   \<and> precedes (MongooseConnect (mongo (connections c))) (RedisConnect 0) (trace (main rt c))
   \<and> precedes (RedisConnect 0) (AppListen (port (http (connections c)))) (trace (main rt c))
   \<and> last (filter is_app_call (trace (main rt c))) = AppListen (port (http (connections c)))
   \<and> (\<exists>sched. status (run rt c sched) = Running
        \<and> last (trace (run rt c sched)) =
            ConsoleLog (''Listening on port '' @ port (http (connections c)))
        \<and> MongooseCb \<in> set (pending (run rt c sched))
        \<and> RedisCatch \<in> set (pending (run rt c sched)))"
proof -
  have "status (run rt c [ListenDone None]) = Running
        \<and> last (trace (run rt c [ListenDone None])) =
            ConsoleLog (''Listening on port '' @ port (http (connections c)))
        \<and> MongooseCb \<in> set (pending (run rt c [ListenDone None]))
        \<and> RedisCatch \<in> set (pending (run rt c [ListenDone None]))"
    by (simp add: run_def deliver_def cb_defs main_status main_pending main_config)
  then have "\<exists>sched. status (run rt c sched) = Running
        \<and> last (trace (run rt c sched)) =
            ConsoleLog (''Listening on port '' @ port (http (connections c)))
        \<and> MongooseCb \<in> set (pending (run rt c sched))
        \<and> RedisCatch \<in> set (pending (run rt c sched))"
    by blast
  then show ?thesis
    by (simp add: main_pending main_trace precedes_def)
qed

theorem listen_does_not_wait_witness:
  "pending (main example_runtime example_config) = [MongooseCb, RedisCatch, ListenCb]
   \<and> precedes (RedisConnect 0) (AppListen ''3000'') (trace (main example_runtime example_config))
   \<and> (\<exists>sched. status (run example_runtime example_config sched) = Running
        \<and> last (trace (run example_runtime example_config sched)) =
            ConsoleLog ''Listening on port 3000''
        \<and> MongooseCb \<in> set (pending (run example_runtime example_config sched))
        \<and> RedisCatch \<in> set (pending (run example_runtime example_config sched)))"
  using listen_does_not_wait [of example_runtime example_config]
  by (simp add: example_config_def)

subsection \<open>The configuration is only read\<close>

text \<open>
  C8. The state starts with the resolved configuration, and no statement of the script
  (connecting to the database, creating and connecting the cache client, creating the
  server, attaching each middleware, mounting the routes, listening) and no callback
  changes it: after the script, after every delivered outcome and at the end of every run
  the configuration is the initial one.
\<close>

theorem config_never_mutated:
  "config (init c) = c
   \<and> config (mongoose_connect s) = config s
   \<and> config (snd (redis_createClient s)) = config s
   \<and> config (redis_connect h s) = config s
   \<and> config (express s) = config s
   \<and> config (use_static rt s) = config s
   \<and> config (use_compression s) = config s
   \<and> config (use_urlencoded s) = config s
   \<and> config (use_session h s) = config s
   \<and> config (set_view_engine rt s) = config s
   \<and> config (use_favicon rt s) = config s
   \<and> config (use_cookieParser s) = config s
   \<and> config (mount_routes s) = config s
   \<and> config (app_listen s) = config s
   \<and> config (main rt c) = c
   \<and> config (deliver s ev) = config s
   \<and> config (run rt c sched) = c"
  by (simp add: step_defs Let_def main_config deliver_config run_config)

theorem config_never_mutated_witness:
  "config (run example_runtime example_config
      [ListenDone None, RedisConnectDone (Some ''ECONNREFUSED''), MongooseDone None]) =
     example_config
   \<and> config (main example_runtime example_config) = example_config"
  using config_never_mutated [where c = example_config and rt = example_runtime
      and sched = "[ListenDone None, RedisConnectDone (Some ''ECONNREFUSED''), MongooseDone None]"]
  by simp

subsection \<open>One cache client, shared with the session store\<close>

text \<open>
  C9. In every run exactly one redis client is created, with the options
  \<^verbatim>\<open>legacyMode: true\<close> and the configured redis URL; it is the client the script
  connects, and the store of the one session middleware is built on that same client.
\<close>

theorem single_redis_client:
  "List.map_filter created_client (trace (run rt c sched)) =
     [(0, JObj [(''legacyMode'', JBool True), (''url'', JStr (redis (connections c)))])]
   \<and> clients (run rt c sched) =
     [JObj [(''legacyMode'', JBool True), (''url'', JStr (redis (connections c)))]]
   \<and> filter is_connect (trace (run rt c sched)) =
     [MongooseConnect (mongo (connections c)), RedisConnect 0]
   \<and> List.map_filter session_of (trace (run rt c sched)) = [session_options c 0]
   \<and> get_prop (session_options c 0) ''store'' =
       Some (JRedisStore (JObj [(''client'', JClient 0)]))"
  by (simp add: run_created_clients run_clients main_clients run_connects run_sessions
      session_options_def)

theorem single_redis_client_witness:
  "List.map_filter created_client (trace (run example_runtime example_config [ListenDone None])) =
     [(0, JObj [(''legacyMode'', JBool True), (''url'', JStr ''redis://127.0.0.1:6379'')])]
   \<and> length (clients (run example_runtime example_config [ListenDone None])) = 1"
  using single_redis_client [of example_runtime example_config "[ListenDone None]"]
  by (simp add: example_config_def)

subsection \<open>Favicon and static root\<close>

text \<open>
  C10. The static middleware is mounted under /assets on \<^verbatim>\<open>path.resolve\<close> of the
  configured static-assets path, and the favicon middleware is given
  \<^verbatim>\<open>path.resolve\<close> of that same path followed by \<^verbatim>\<open>/img/favicon.png\<close>. With a
  \<^verbatim>\<open>path.resolve\<close> that returns absolute paths, both are absolute. Two configurations
  with the same static-assets path give the same favicon file: the configuration has
  nothing else that places the favicon.
\<close>

theorem favicon_under_static_path:
  assumes "\<forall>p. is_absolute (path_resolve rt p)"
  shows "List.map_filter static_root (trace (main rt c)) =
           [(Some ''/assets'', path_resolve rt (path (staticAssets c)))]
       \<and> List.map_filter favicon_file (trace (main rt c)) =
           [path_resolve rt (path (staticAssets c) @ ''/img/favicon.png'')]
       \<and> list_all is_absolute (map snd (List.map_filter static_root (trace (main rt c))))
       \<and> list_all is_absolute (List.map_filter favicon_file (trace (main rt c)))
       \<and> (path (staticAssets c') = path (staticAssets c) \<longrightarrow>
            List.map_filter favicon_file (trace (main rt c')) =
            List.map_filter favicon_file (trace (main rt c)))"
  using assms by (simp add: main_trace)

theorem favicon_under_static_path_witness:
  "(\<forall>p. is_absolute (path_resolve example_runtime p))
   \<and> List.map_filter static_root (trace (main example_runtime example_config)) =
       [(Some ''/assets'', ''/app/hosted'')]
   \<and> List.map_filter favicon_file (trace (main example_runtime example_config)) =
       [''/app/hosted/img/favicon.png'']
   \<and> is_absolute ''/app/hosted/img/favicon.png''
   \<and> path (staticAssets (example_config\<lparr>secret := ''another secret''\<rparr>)) =
       path (staticAssets example_config)
   \<and> List.map_filter favicon_file
        (trace (main example_runtime (example_config\<lparr>secret := ''another secret''\<rparr>))) =
       [''/app/hosted/img/favicon.png'']"
proof -
  have h: "\<forall>p. is_absolute (path_resolve example_runtime p)"
    by (simp add: example_runtime_def posix_resolve_absolute)
  have "is_absolute ''/app/hosted/img/favicon.png''"
    by (simp add: is_absolute_def)
  then show ?thesis
    using h favicon_under_static_path [OF h, of example_config
        "example_config\<lparr>secret := ''another secret''\<rparr>"]
    by (simp add: example_runtime_def example_config_def example_static_root example_favicon_file)
qed

subsection \<open>The configuration resolver\<close>

lemma env_or_default_set: "env n = Some v \<Longrightarrow> v \<noteq> [] \<Longrightarrow> env_or_default env n d = v"
  by (simp add: env_or_default_def)

lemma env_or_default_unset: "env n = None \<or> env n = Some [] \<Longrightarrow> env_or_default env n d = d"
  by (auto simp: env_or_default_def)

lemma env_or_default_cong: "env n = env' n \<Longrightarrow> env_or_default env n d = env_or_default env' n d"
  by (simp add: env_or_default_def)

text \<open>
  The policy's "non-empty": a variable that is present with the empty string as its value
  is treated as a missing one. In the environment below the database URL is the empty
  string, and the resolved database URL is the default.
\<close>

lemma empty_value_counts_as_missing:
  "empty_mongo_env (mongo_var example_names) = Some ''''
   \<and> empty_mongo_env (redis_var example_names) = Some ''redis://cache.example.org:6379''
   \<and> empty_mongo_env (port_var example_names) = Some ''8080''
   \<and> empty_mongo_env (secret_var example_names) = Some ''production secret''
   \<and> empty_mongo_env (static_var example_names) = Some ''client''
   \<and> mongo (connections (resolve_config example_names example_config empty_mongo_env)) =
       ''mongodb://127.0.0.1/ConfigExample''
   \<and> Some (mongo (connections (resolve_config example_names example_config empty_mongo_env)))
       \<noteq> empty_mongo_env (mongo_var example_names)"
  by (simp add: empty_mongo_env_def example_names_def example_config_def resolve_config_def
      env_or_default_def)

text \<open>
  C6. Each field of the resolved configuration is the value of its variable when that is
  set and non-empty, and the fixed default otherwise. Consequently, when every recognized
  variable is set (in the sense in which the policy uses a variable: set and non-empty)
  the resolved structure consists of exactly the environment's values, and when none is
  set it is the default structure. The result depends on the environment through the
  five recognized variables only: two environments that agree on them resolve to the same
  configuration. The resolver as modelled has no failure branch and no state of its own,
  as the specification gives it none.
\<close>

theorem resolve_config_policy:
  "(\<forall>n v d. env n = Some v \<and> v \<noteq> [] \<longrightarrow> env_or_default env n d = v)
   \<and> (\<forall>n d. env n = None \<or> env n = Some [] \<longrightarrow> env_or_default env n d = d)
   \<and> mongo (connections (resolve_config ns dflt env)) =
       env_or_default env (mongo_var ns) (mongo (connections dflt))
   \<and> redis (connections (resolve_config ns dflt env)) =
       env_or_default env (redis_var ns) (redis (connections dflt))
   \<and> port (http (connections (resolve_config ns dflt env))) =
       env_or_default env (port_var ns) (port (http (connections dflt)))
   \<and> secret (resolve_config ns dflt env) = env_or_default env (secret_var ns) (secret dflt)
   \<and> path (staticAssets (resolve_config ns dflt env)) =
       env_or_default env (static_var ns) (path (staticAssets dflt))
   \<and> (env (mongo_var ns) = Some m \<and> m \<noteq> [] \<and> env (redis_var ns) = Some r \<and> r \<noteq> []
        \<and> env (port_var ns) = Some p \<and> p \<noteq> [] \<and> env (secret_var ns) = Some k \<and> k \<noteq> []
        \<and> env (static_var ns) = Some a \<and> a \<noteq> [] \<longrightarrow>
      resolve_config ns dflt env =
        \<lparr>connections = \<lparr>mongo = m, redis = r, http = \<lparr>port = p\<rparr>\<rparr>,
         secret = k, staticAssets = \<lparr>path = a\<rparr>\<rparr>)
   \<and> ((\<forall>n \<in> set (recognized ns). env n = None) \<longrightarrow> resolve_config ns dflt env = dflt)
   \<and> ((\<forall>n \<in> set (recognized ns). env n = env' n) \<longrightarrow>
        resolve_config ns dflt env = resolve_config ns dflt env')"
proof -
  have fields: "mongo (connections (resolve_config ns dflt env)) =
       env_or_default env (mongo_var ns) (mongo (connections dflt))"
    "redis (connections (resolve_config ns dflt env)) =
       env_or_default env (redis_var ns) (redis (connections dflt))"
    "port (http (connections (resolve_config ns dflt env))) =
       env_or_default env (port_var ns) (port (http (connections dflt)))"
    "secret (resolve_config ns dflt env) = env_or_default env (secret_var ns) (secret dflt)"
    "path (staticAssets (resolve_config ns dflt env)) =
       env_or_default env (static_var ns) (path (staticAssets dflt))"
    by (simp_all add: resolve_config_def)
  have all_set: "resolve_config ns dflt env =
        \<lparr>connections = \<lparr>mongo = m, redis = r, http = \<lparr>port = p\<rparr>\<rparr>,
         secret = k, staticAssets = \<lparr>path = a\<rparr>\<rparr>"
    if "env (mongo_var ns) = Some m" "m \<noteq> []" "env (redis_var ns) = Some r" "r \<noteq> []"
      "env (port_var ns) = Some p" "p \<noteq> []" "env (secret_var ns) = Some k" "k \<noteq> []"
      "env (static_var ns) = Some a" "a \<noteq> []"
    using that by (simp add: resolve_config_def env_or_default_set)
  have none_set: "resolve_config ns dflt env = dflt"
    if "\<forall>n \<in> set (recognized ns). env n = None"
    using that by (simp add: resolve_config_def recognized_def env_or_default_def)
  have same: "resolve_config ns dflt env = resolve_config ns dflt env'"
    if "\<forall>n \<in> set (recognized ns). env n = env' n"
    using that by (simp add: resolve_config_def recognized_def env_or_default_def)
  show ?thesis
    using fields all_set none_set same
    by (simp add: env_or_default_set env_or_default_unset)
qed

theorem resolve_config_policy_witness:
  "production_env (mongo_var example_names) = Some ''mongodb://db.example.org/app''
   \<and> production_env (redis_var example_names) = Some ''redis://cache.example.org:6379''
   \<and> production_env (port_var example_names) = Some ''8080''
   \<and> production_env (secret_var example_names) = Some ''production secret''
   \<and> production_env (static_var example_names) = Some ''client''
   \<and> resolve_config example_names example_config production_env =
       \<lparr>connections =
          \<lparr>mongo = ''mongodb://db.example.org/app'',
           redis = ''redis://cache.example.org:6379'',
           http = \<lparr>port = ''8080''\<rparr>\<rparr>,
        secret = ''production secret'',
        staticAssets = \<lparr>path = ''client''\<rparr>\<rparr>
   \<and> list_all (\<lambda>n. Map.empty n = (None :: string option)) (recognized example_names)
   \<and> resolve_config example_names example_config Map.empty = example_config
   \<and> list_all (\<lambda>n. production_env n = (production_env(''HOME'' \<mapsto> ''/root'')) n)
        (recognized example_names)
   \<and> resolve_config example_names example_config production_env =
       resolve_config example_names example_config (production_env(''HOME'' \<mapsto> ''/root''))"
proof -
  have set_vars:
    "production_env (mongo_var example_names) = Some ''mongodb://db.example.org/app''"
    "production_env (redis_var example_names) = Some ''redis://cache.example.org:6379''"
    "production_env (port_var example_names) = Some ''8080''"
    "production_env (secret_var example_names) = Some ''production secret''"
    "production_env (static_var example_names) = Some ''client''"
    by (simp_all add: production_env_def example_names_def)
  have unset: "\<forall>n \<in> set (recognized example_names). Map.empty n = (None :: string option)"
    by simp
  have a: "resolve_config example_names example_config production_env =
       \<lparr>connections =
          \<lparr>mongo = ''mongodb://db.example.org/app'',
           redis = ''redis://cache.example.org:6379'',
           http = \<lparr>port = ''8080''\<rparr>\<rparr>,
        secret = ''production secret'',
        staticAssets = \<lparr>path = ''client''\<rparr>\<rparr>"
    using set_vars
      resolve_config_policy [of production_env example_names example_config
        "''mongodb://db.example.org/app''" "''redis://cache.example.org:6379''" "''8080''"
        "''production secret''" "''client''" production_env]
    by simp
  have b: "resolve_config example_names example_config Map.empty = example_config"
    using unset
      resolve_config_policy [of Map.empty example_names example_config
        "''''" "''''" "''''" "''''" "''''" Map.empty]
    by simp
  have agree: "\<forall>n \<in> set (recognized example_names).
      production_env n = (production_env(''HOME'' \<mapsto> ''/root'')) n"
    by (simp add: recognized_def example_names_def)
  have c: "resolve_config example_names example_config production_env =
       resolve_config example_names example_config (production_env(''HOME'' \<mapsto> ''/root''))"
    using agree
      resolve_config_policy [of production_env example_names example_config
        "''''" "''''" "''''" "''''" "''''" "production_env(''HOME'' \<mapsto> ''/root'')"]
    by simp
  show ?thesis using set_vars a b c agree by (simp add: list_all_iff)
qed

end
